theory Spec2Isabelle
  imports Main
begin

unbundle bit_operations_syntax

section \<open>The permission reporter of tools/perm-mask/test-perm-mask.py\<close>

subsection \<open>Exceptions and the metadata query\<close>

text \<open>
  The script distinguishes exceptions only through its two handlers,
  \<^verbatim>\<open>except FileNotFoundError\<close> and \<^verbatim>\<open>except Exception as e\<close>, tried in that order.
  An exception value is therefore one of: an instance of \<^verbatim>\<open>FileNotFoundError\<close>; an
  instance of \<^verbatim>\<open>Exception\<close> that is not a \<^verbatim>\<open>FileNotFoundError\<close> (PermissionError,
  any other OSError, ValueError, IndexError, UnicodeEncodeError, ...); an instance of
  \<^verbatim>\<open>BaseException\<close> that is not an \<^verbatim>\<open>Exception\<close> (KeyboardInterrupt, SystemExit),
  which neither handler catches. The argument is \<^verbatim>\<open>str(e)\<close>.
\<close>

datatype exception =
    FileNotFoundError string
  | Exception string
  | BaseException string

text \<open>
  \<^verbatim>\<open>os.stat(path)\<close> returns a result object, of which the script reads \<^verbatim>\<open>st_mode\<close>
  (a Python integer), or raises. A query that fails raises an OSError
  (FileNotFoundError, PermissionError, ...) or a ValueError, which are all instances of
  \<^verbatim>\<open>Exception\<close>; only an interrupt arriving during the call surfaces there as a bare
  \<^verbatim>\<open>BaseException\<close>. A value of type \<open>os_stat\<close> is the answer of the file system
  at one moment.
\<close>

record stat_result =
  st_mode :: int

type_synonym os_stat = "string \<Rightarrow> exception + stat_result"

subsection \<open>Standard output\<close>

text \<open>
  Standard output is the sequence of characters written so far. \<^verbatim>\<open>print(s)\<close> writes
  \<^verbatim>\<open>s\<close> and a newline, or raises: a stream whose encoding has no code for a
  character of \<^verbatim>\<open>s\<close> raises UnicodeEncodeError, a closed one raises an OSError. The
  stream is a parameter of the program: given the characters written so far and the
  text of a \<^verbatim>\<open>print\<close>, it tells the exception that the call raises, if any. A call
  that raises is taken to write nothing, as is the case for an encoding error, which
  is found before the first character is written.

  A statement takes the output written before it and returns the output after it and
  the exception that it raised, if any.
\<close>

type_synonym stdout = string

type_synonym text_stream = "stdout \<Rightarrow> string \<Rightarrow> exception option"

type_synonym statement = "stdout \<Rightarrow> stdout \<times> exception option"

definition newline :: char where
  "newline = CHR 0x0A"

definition print :: "text_stream \<Rightarrow> string \<Rightarrow> statement" where
  "print wr s out =
     (case wr out s of
        None \<Rightarrow> (out @ s @ [newline], None)
      | Some e \<Rightarrow> (out, Some e))"

text \<open>Two statements in sequence: the second runs only if the first raised nothing.\<close>

definition then_stmt :: "statement \<Rightarrow> statement \<Rightarrow> statement" where
  "then_stmt s1 s2 out =
     (case s1 out of
        (out', None) \<Rightarrow> s2 out'
      | (out', Some e) \<Rightarrow> (out', Some e))"

subsection \<open>The lookup table\<close>

text \<open>
  \<^verbatim>\<open>xs[i]\<close> on a Python list. CPython first converts the index to a
  \<^verbatim>\<open>Py_ssize_t\<close> and raises IndexError (\<open>cannot fit 'int' into an index-sized
  integer\<close>) if it does not fit; the bound below is the one of a 64-bit build. Then a
  negative index counts from the end, and an index outside
  \<^verbatim>\<open>-len(xs) .. len(xs) - 1\<close> raises IndexError (\<open>list index out of range\<close>).
\<close>

definition PY_SSIZE_T_MAX :: int where
  "PY_SSIZE_T_MAX = 2 ^ 63 - 1"

definition list_getitem :: "'a list \<Rightarrow> int \<Rightarrow> exception + 'a" where
  "list_getitem xs i =
     (if i < - PY_SSIZE_T_MAX - 1 \<or> PY_SSIZE_T_MAX < i
      then Inl (Exception (''cannot fit '' @ [CHR 0x27] @ ''int'' @ [CHR 0x27]
                             @ '' into an index-sized integer''))
      else
        (let n = int (length xs);
             j = (if i < 0 then i + n else i)
         in if 0 \<le> j \<and> j < n then Inr (xs ! nat j)
            else Inl (Exception ''list index out of range'')))"

definition permissions :: "string list" where
  "permissions = [''---'', ''--x'', ''-w-'', ''-wx'', ''r--'', ''r-x'', ''rw-'', ''rwx'']"

definition permission_mask_to_string :: "int \<Rightarrow> exception + string" where
  "permission_mask_to_string mask' = list_getitem permissions mask'"

subsection \<open>Extracting the three permission fields\<close>

text \<open>
  The masks are the octal literals \<^verbatim>\<open>0o700 = 448\<close>, \<^verbatim>\<open>0o070 = 56\<close> and
  \<^verbatim>\<open>0o007 = 7\<close>. On Python integers \<^verbatim>\<open>&\<close> is the two's complement conjunction
  and \<^verbatim>\<open>>>\<close> the arithmetic shift, as \<open>AND\<close> and \<open>drop_bit\<close> are on \<open>int\<close>.
\<close>

definition user_permissions :: "int \<Rightarrow> int" where
  "user_permissions file_mode = drop_bit 6 (file_mode AND 448)"

definition group_permissions :: "int \<Rightarrow> int" where
  "group_permissions file_mode = drop_bit 3 (file_mode AND 56)"

definition other_permissions :: "int \<Rightarrow> int" where
  "other_permissions file_mode = file_mode AND 7"

subsection \<open>The loop\<close>

text \<open>
  \<^verbatim>\<open>print(f"<label>{permission_mask_to_string(m)}")\<close>: the f-string is evaluated
  first, so a lookup that raises prints nothing.
\<close>

definition print_permissions :: "text_stream \<Rightarrow> string \<Rightarrow> int \<Rightarrow> statement" where
  "print_permissions wr label m out =
     (case permission_mask_to_string m of
        Inl e \<Rightarrow> (out, Some e)
      | Inr s \<Rightarrow> print wr (label @ s) out)"

text \<open>
  The body of the \<^verbatim>\<open>try\<close> block: the query, the three fields, the four prints.
\<close>

definition try_block :: "text_stream \<Rightarrow> os_stat \<Rightarrow> string \<Rightarrow> statement" where
  "try_block wr stat path out =
     (case stat path of
        Inl e \<Rightarrow> (out, Some e)
      | Inr r \<Rightarrow>
         (let file_mode = st_mode r;
              user = user_permissions file_mode;
              grp = group_permissions file_mode;
              other = other_permissions file_mode
          in then_stmt (print wr (''File: '' @ path))
              (then_stmt (print_permissions wr ''  User permissions:  '' user)
                (then_stmt (print_permissions wr ''  Group permissions: '' grp)
                  (print_permissions wr ''  Other permissions: '' other))) out))"

text \<open>
  The whole \<^verbatim>\<open>try\<close> statement: the handlers in the order of the source. An
  exception that no handler matches leaves the statement, and so does an exception
  raised by the \<^verbatim>\<open>print\<close> of a handler.
\<close>

definition try_except :: "text_stream \<Rightarrow> os_stat \<Rightarrow> string \<Rightarrow> statement" where
  "try_except wr stat path out =
     (case try_block wr stat path out of
        (out', None) \<Rightarrow> (out', None)
      | (out', Some (FileNotFoundError _)) \<Rightarrow>
          print wr (''File not found: '' @ path) out'
      | (out', Some (Exception e)) \<Rightarrow>
          print wr (''Error processing file '' @ path @ '': '' @ e) out'
      | (out', Some (BaseException e)) \<Rightarrow> (out', Some (BaseException e)))"

text \<open>
  \<^verbatim>\<open>for path in file_path\<close>: the paths in list order; an exception that leaves the
  body ends the loop and the program. Every iteration queries the file system anew, so
  the loop takes the answer of the file system at each iteration: \<open>stat k\<close> is the
  answer during iteration \<open>k\<close>, counted from 0.
\<close>

fun for_loop :: "text_stream \<Rightarrow> (nat \<Rightarrow> os_stat) \<Rightarrow> string list \<Rightarrow> nat \<Rightarrow> statement" where
  "for_loop wr stat [] k out = (out, None)"
| "for_loop wr stat (path # rest) k out =
     (case try_except wr (stat k) path out of
        (out', None) \<Rightarrow> for_loop wr stat rest (Suc k) out'
      | (out', Some e) \<Rightarrow> (out', Some e))"

definition run :: "text_stream \<Rightarrow> (nat \<Rightarrow> os_stat) \<Rightarrow> string list \<Rightarrow> stdout \<times> exception option" where
  "run wr stat paths = for_loop wr stat paths 0 []"

text \<open>The three paths written into the script (raw strings; \<open>bsl\<close> is the backslash).\<close>

definition bsl :: string where
  "bsl = [CHR 0x5C]"

definition file_path :: "string list" where
  "file_path =
     [''D:'' @ bsl @ ''gem'' @ bsl @ ''YaeAchievement.exe'',
      ''D:'' @ bsl @ ''gem'' @ bsl @ ''Genshin Impact game'' @ bsl @ ''GenshinImpact_Data'' @ bsl
        @ ''Persistent'' @ bsl @ ''AssetBundles'' @ bsl @ ''blocks'' @ bsl @ ''15'' @ bsl
        @ ''34980066.blk'',
      ''D:'' @ bsl @ ''gem'' @ bsl @ ''Snap Hutao UIGF.json'']"

definition main :: "text_stream \<Rightarrow> (nat \<Rightarrow> os_stat) \<Rightarrow> stdout \<times> exception option" where
  "main wr stat = run wr stat file_path"

subsection \<open>The specification's reading of the table and of the reports\<close>

text \<open>
  The rwx string of a three-bit value as the specification words it: bit 2 is read,
  bit 1 is write, bit 0 is execute, and \<open>-\<close> stands for an absent bit.
\<close>

definition rwx_string :: "int \<Rightarrow> string" where
  "rwx_string m =
     [if bit m 2 then CHR ''r'' else CHR ''-'',
      if bit m 1 then CHR ''w'' else CHR ''-'',
      if bit m 0 then CHR ''x'' else CHR ''-'']"

text \<open>
  The lines of the report the specification expects for a path, given the outcome of
  its metadata query: the four lines of a successful query, where owner, group and
  other are bits 6 to 8, 3 to 5 and 0 to 2 of the file mode, or the one line of each of
  the two kinds of error. The specification knows no third kind of failure, and none
  is reported.
\<close>

definition report_lines :: "string \<Rightarrow> exception + stat_result \<Rightarrow> string list" where
  "report_lines path outcome =
     (case outcome of
        Inr r \<Rightarrow>
          [''File: '' @ path,
           ''  User permissions:  '' @ rwx_string (take_bit 3 (drop_bit 6 (st_mode r))),
           ''  Group permissions: '' @ rwx_string (take_bit 3 (drop_bit 3 (st_mode r))),
           ''  Other permissions: '' @ rwx_string (take_bit 3 (st_mode r))]
      | Inl (FileNotFoundError _) \<Rightarrow> [''File not found: '' @ path]
      | Inl (Exception descr) \<Rightarrow> [''Error processing file '' @ path @ '': '' @ descr]
      | Inl (BaseException _) \<Rightarrow> [])"

text \<open>The characters of a list of lines, each line ended by a newline.\<close>

definition text_of :: "string list \<Rightarrow> string" where
  "text_of ls = concat (map (\<lambda>l. l @ [newline]) ls)"

definition expected_report :: "string \<Rightarrow> exception + stat_result \<Rightarrow> string" where
  "expected_report path outcome = text_of (report_lines path outcome)"

text \<open>
  The reports the specification expects of a run, one per position of the list: the
  report of the path at position \<open>k\<close> for the outcome of its query during iteration \<open>k\<close>.
\<close>

definition expected_reports :: "(nat \<Rightarrow> os_stat) \<Rightarrow> string list \<Rightarrow> string list" where
  "expected_reports stat paths =
     map (\<lambda>k. expected_report (paths ! k) (stat k (paths ! k))) [0..<length paths]"

text \<open>The outcomes the specification lists: success, not found, any other error.\<close>

definition listed_outcome :: "exception + stat_result \<Rightarrow> bool" where
  "listed_outcome outcome =
     (case outcome of
        Inr _ \<Rightarrow> True
      | Inl (FileNotFoundError _) \<Rightarrow> True
      | Inl (Exception _) \<Rightarrow> True
      | Inl (BaseException _) \<Rightarrow> False)"

text \<open>
  Printing a list of lines one after the other, up to the first \<^verbatim>\<open>print\<close> that
  raises.
\<close>

fun print_lines :: "text_stream \<Rightarrow> string list \<Rightarrow> statement" where
  "print_lines wr [] out = (out, None)"
| "print_lines wr (l # ls) out = then_stmt (print wr l) (print_lines wr ls) out"

subsection \<open>Sample file systems and streams\<close>

text \<open>
  A sample answer of the metadata query: \<open>a\<close> is a regular file with mode
  \<^verbatim>\<open>0o100754 = 33260\<close>, \<open>b\<close> does not exist, and the query of any other path is
  refused.
\<close>

definition example_stat :: os_stat where
  "example_stat p =
     (if p = ''a'' then Inr \<lparr>st_mode = 33260\<rparr>
      else if p = ''b'' then Inl (FileNotFoundError ''[Errno 2] No such file or directory'')
      else Inl (Exception ''[Errno 13] Permission denied''))"

text \<open>A file system in which no path exists, and one in which every path is a file.\<close>

definition nothing_there :: os_stat where
  "nothing_there p = Inl (FileNotFoundError ''[Errno 2] No such file or directory'')"


text \<open>A file system that gives the same answers during the whole run.\<close>

definition unchanged :: "os_stat \<Rightarrow> nat \<Rightarrow> os_stat" where
  "unchanged stat k = stat"

text \<open>
  A file system in which \<open>b\<close> is created, with mode \<^verbatim>\<open>0o100644 = 33188\<close>, after the
  first iteration of the loop.
\<close>

definition b_created :: "nat \<Rightarrow> os_stat" where
  "b_created k p =
     (if p = ''b'' \<and> 0 < k then Inr \<lparr>st_mode = 33188\<rparr> else example_stat p)"

text \<open>A stream that accepts every text.\<close>

definition reliable_stdout :: text_stream where
  "reliable_stdout out s = None"

text \<open>
  A stream with the ASCII encoding: a text with a character beyond 127 raises
  UnicodeEncodeError.
\<close>

definition ascii_stdout :: text_stream where
  "ascii_stdout out s =
     (if list_ex (\<lambda>c. 128 \<le> (of_char c :: nat)) s
      then Some (Exception ''ordinal not in range(128)'')
      else None)"

text \<open>A path with a character beyond ASCII (\<open>e\<close> with an acute accent in Latin-1).\<close>

definition cafe :: string where
  "cafe = ''caf'' @ [CHR 0xE9]"

section \<open>Properties\<close>

subsection \<open>The lookup table\<close>

lemma mask_cases:
  fixes m :: int
  assumes "0 \<le> m" "m \<le> 7"
  shows "m = 0 \<or> m = 1 \<or> m = 2 \<or> m = 3 \<or> m = 4 \<or> m = 5 \<or> m = 6 \<or> m = 7"
  using assms by arith

lemma lookup_in_range:
  assumes "0 \<le> m" "m \<le> 7"
  shows "permission_mask_to_string m = Inr (permissions ! nat m)"
  using assms
  by (simp add: permission_mask_to_string_def list_getitem_def permissions_def PY_SSIZE_T_MAX_def)

lemma table_is_rwx:
  assumes "0 \<le> m" "m \<le> 7"
  shows "permissions ! nat m = rwx_string m"
  using mask_cases [OF assms]
  by (elim disjE) (simp_all add: permissions_def rwx_string_def)

text \<open>
  Claim C1. For every integer \<open>m\<close> in 0..7, \<open>permission_mask_to_string m\<close> returns
  one of the eight strings of the table, namely the three-character string whose first
  character is \<open>r\<close> iff bit 2 of \<open>m\<close> is set, whose second is \<open>w\<close> iff bit 1 is set and
  whose third is \<open>x\<close> iff bit 0 is set, with \<open>-\<close> for each absent bit; no other string
  has these three characters.
\<close>

theorem permission_mask_to_string_table:
  assumes "0 \<le> m" and "m \<le> 7"
  shows "\<exists>s. permission_mask_to_string m = Inr s
          \<and> s \<in> {''---'', ''--x'', ''-w-'', ''-wx'', ''r--'', ''r-x'', ''rw-'', ''rwx''}
          \<and> length s = 3
          \<and> s ! 0 = (if bit m 2 then CHR ''r'' else CHR ''-'')
          \<and> s ! 1 = (if bit m 1 then CHR ''w'' else CHR ''-'')
          \<and> s ! 2 = (if bit m 0 then CHR ''x'' else CHR ''-'')
          \<and> (\<forall>t. length t = 3 \<and> t ! 0 = s ! 0 \<and> t ! 1 = s ! 1 \<and> t ! 2 = s ! 2 \<longrightarrow> t = s)"
proof -
  let ?s = "rwx_string m"
  have ret: "permission_mask_to_string m = Inr ?s"
    using assms by (simp add: lookup_in_range table_is_rwx)
  have mem: "?s \<in> {''---'', ''--x'', ''-w-'', ''-wx'', ''r--'', ''r-x'', ''rw-'', ''rwx''}"
    using mask_cases [OF assms] by (elim disjE) (simp_all add: rwx_string_def)
  have chars: "length ?s = 3"
    "?s ! 0 = (if bit m 2 then CHR ''r'' else CHR ''-'')"
    "?s ! 1 = (if bit m 1 then CHR ''w'' else CHR ''-'')"
    "?s ! 2 = (if bit m 0 then CHR ''x'' else CHR ''-'')"
    by (simp_all add: rwx_string_def)
  have uniq: "t = ?s" if "length t = 3 \<and> t ! 0 = ?s ! 0 \<and> t ! 1 = ?s ! 1 \<and> t ! 2 = ?s ! 2" for t
  proof (rule nth_equalityI)
    show "length t = length ?s" using that chars(1) by simp
  next
    fix i assume "i < length t"
    then have "i = 0 \<or> i = 1 \<or> i = 2" using that by auto
    then show "t ! i = ?s ! i" using that by auto
  qed
  show ?thesis
    using ret mem chars uniq by blast
qed

theorem permission_mask_to_string_table_witness:
  "(0::int) \<le> 5 \<and> (5::int) \<le> 7 \<and> permission_mask_to_string 5 = Inr ''r-x''"
proof -
  have a: "(0::int) \<le> 5" and b: "(5::int) \<le> 7" by simp_all
  obtain s where ret: "permission_mask_to_string 5 = Inr s"
    and c0: "s ! 0 = (if bit (5::int) 2 then CHR ''r'' else CHR ''-'')"
    and c1: "s ! 1 = (if bit (5::int) 1 then CHR ''w'' else CHR ''-'')"
    and c2: "s ! 2 = (if bit (5::int) 0 then CHR ''x'' else CHR ''-'')"
    and uniq: "\<forall>t. length t = 3 \<and> t ! 0 = s ! 0 \<and> t ! 1 = s ! 1 \<and> t ! 2 = s ! 2 \<longrightarrow> t = s"
    using permission_mask_to_string_table [OF a b] by blast
  have "length ''r-x'' = 3 \<and> ''r-x'' ! 0 = s ! 0 \<and> ''r-x'' ! 1 = s ! 1 \<and> ''r-x'' ! 2 = s ! 2"
    using c0 c1 c2 by simp
  with uniq have "''r-x'' = s" by blast
  with ret a b show ?thesis by simp
qed

text \<open>
  Claim C2 says that no integer outside 0..7 is answered with one of the eight
  permission strings. It fails on \<open>-1\<close>: a negative index into a Python list counts
  from the end, so the call returns the last entry of the table, \<open>rwx\<close>.
\<close>

theorem permission_mask_to_string_negative_index_counterexample:
  "\<not> (0 \<le> (- 1 :: int) \<and> (- 1 :: int) \<le> 7)
   \<and> permission_mask_to_string (- 1) = Inr ''rwx''
   \<and> ''rwx'' \<in> set permissions"
  by (simp add: permission_mask_to_string_def list_getitem_def permissions_def
      PY_SSIZE_T_MAX_def)

text \<open>
  Claim C2, as amended. For every integer \<open>m\<close> below \<open>-8\<close> or above 7 the call
  raises an exception, an instance of \<^verbatim>\<open>Exception\<close>, and returns no string; an
  integer \<open>k\<close> in \<open>-8..-1\<close> is answered as \<open>k + 8\<close> is.
\<close>

theorem permission_mask_to_string_out_of_range:
  "(m < - 8 \<or> 7 < m \<longrightarrow> (\<exists>msg. permission_mask_to_string m = Inl (Exception msg)))
   \<and> (- 8 \<le> k \<and> k < 0 \<longrightarrow>
      permission_mask_to_string k = permission_mask_to_string (k + 8))"
proof -
  have "\<exists>msg. permission_mask_to_string m = Inl (Exception msg)" if "m < - 8 \<or> 7 < m"
    using that
    by (auto simp add: permission_mask_to_string_def list_getitem_def permissions_def)
  moreover have "permission_mask_to_string k = permission_mask_to_string (k + 8)"
    if "- 8 \<le> k \<and> k < 0"
    using that
    by (simp add: permission_mask_to_string_def list_getitem_def permissions_def
        PY_SSIZE_T_MAX_def)
  ultimately show ?thesis by blast
qed

theorem permission_mask_to_string_out_of_range_witness:
  "((8::int) < - 8 \<or> 7 < (8::int))
   \<and> permission_mask_to_string 8 = Inl (Exception ''list index out of range'')
   \<and> ((2 ^ 63 :: int) < - 8 \<or> 7 < (2 ^ 63 :: int))
   \<and> permission_mask_to_string (2 ^ 63)
       = Inl (Exception (''cannot fit '' @ [CHR 0x27] @ ''int'' @ [CHR 0x27]
                           @ '' into an index-sized integer''))
   \<and> (- 8 \<le> (- 3 :: int) \<and> (- 3 :: int) < 0)
   \<and> permission_mask_to_string (- 3) = Inr ''r-x''"
proof -
  have h: "(8::int) < - 8 \<or> 7 < (8::int)"
    and b: "(2 ^ 63 :: int) < - 8 \<or> 7 < (2 ^ 63 :: int)"
    and n: "- 8 \<le> (- 3 :: int) \<and> (- 3 :: int) < 0"
    by simp_all
  have five: "permission_mask_to_string 5 = Inr ''r-x''"
    by (simp add: permission_mask_to_string_def list_getitem_def permissions_def
        PY_SSIZE_T_MAX_def)
  have small: "permission_mask_to_string 8 = Inl (Exception ''list index out of range'')"
    by (simp add: permission_mask_to_string_def list_getitem_def permissions_def
        PY_SSIZE_T_MAX_def)
  have big: "permission_mask_to_string (2 ^ 63)
       = Inl (Exception (''cannot fit '' @ [CHR 0x27] @ ''int'' @ [CHR 0x27]
                           @ '' into an index-sized integer''))"
    by (simp add: permission_mask_to_string_def list_getitem_def PY_SSIZE_T_MAX_def)
  from permission_mask_to_string_out_of_range [of 8 "- 3"] n
  have "permission_mask_to_string (- 3) = permission_mask_to_string (- 3 + 8)"
    by blast
  with five h b n small big show ?thesis by simp
qed

subsection \<open>The three fields of a file mode\<close>

lemma user_permissions_bits: "user_permissions m = take_bit 3 (drop_bit 6 m)"
proof -
  have "drop_bit 6 (448::int) = 7" by (simp add: drop_bit_eq_div)
  then show ?thesis
    by (simp add: user_permissions_def take_bit_eq_mask mask_eq_exp_minus_1)
qed

lemma group_permissions_bits: "group_permissions m = take_bit 3 (drop_bit 3 m)"
proof -
  have "drop_bit 3 (56::int) = 7" by (simp add: drop_bit_eq_div)
  then show ?thesis
    by (simp add: group_permissions_def take_bit_eq_mask mask_eq_exp_minus_1)
qed

lemma other_permissions_bits: "other_permissions m = take_bit 3 m"
  by (simp add: other_permissions_def take_bit_eq_mask mask_eq_exp_minus_1)

lemma take_bit_3_range: "0 \<le> take_bit 3 (k::int) \<and> take_bit 3 k \<le> 7"
  by (simp add: take_bit_eq_mod)

text \<open>
  Claim C3. For every file mode, the three values the script computes with
  \<^verbatim>\<open>(mode & 0o700) >> 6\<close>, \<^verbatim>\<open>(mode & 0o070) >> 3\<close> and \<^verbatim>\<open>mode & 0o007\<close> are
  the three-bit fields of the mode at bits 6 to 8 (owner), 3 to 5 (group) and 0 to 2
  (other): bit \<open>i\<close> of a value is set iff \<open>i < 3\<close> and the bit of the mode at the
  field's offset plus \<open>i\<close> is set.
\<close>

theorem permission_fields_are_mode_bits:
  "(\<forall>i. bit (user_permissions mode) i \<longleftrightarrow> i < 3 \<and> bit mode (i + 6))
   \<and> (\<forall>i. bit (group_permissions mode) i \<longleftrightarrow> i < 3 \<and> bit mode (i + 3))
   \<and> (\<forall>i. bit (other_permissions mode) i \<longleftrightarrow> i < 3 \<and> bit mode i)
   \<and> user_permissions mode = mode div 64 mod 8
   \<and> group_permissions mode = mode div 8 mod 8
   \<and> other_permissions mode = mode mod 8"
proof -
  have "bit (user_permissions mode) i \<longleftrightarrow> i < 3 \<and> bit mode (i + 6)" for i
    by (simp add: user_permissions_bits bit_simps add.commute)
  moreover have "bit (group_permissions mode) i \<longleftrightarrow> i < 3 \<and> bit mode (i + 3)" for i
    by (simp add: group_permissions_bits bit_simps add.commute)
  moreover have "bit (other_permissions mode) i \<longleftrightarrow> i < 3 \<and> bit mode i" for i
    by (simp add: other_permissions_bits bit_simps)
  moreover have "user_permissions mode = mode div 64 mod 8"
    by (simp add: user_permissions_bits take_bit_eq_mod drop_bit_eq_div)
  moreover have "group_permissions mode = mode div 8 mod 8"
    by (simp add: group_permissions_bits take_bit_eq_mod drop_bit_eq_div)
  moreover have "other_permissions mode = mode mod 8"
    by (simp add: other_permissions_bits take_bit_eq_mod)
  ultimately show ?thesis by blast
qed

text \<open>
  Claim C4. For every non-negative file mode, each of the three masked values lies in
  0..7, so each of the three table lookups of the report is in range and returns the
  table's entry instead of raising.
\<close>

theorem masked_fields_index_the_table:
  assumes "0 \<le> mode"
  shows "0 \<le> user_permissions mode \<and> user_permissions mode \<le> 7
       \<and> 0 \<le> group_permissions mode \<and> group_permissions mode \<le> 7
       \<and> 0 \<le> other_permissions mode \<and> other_permissions mode \<le> 7
       \<and> permission_mask_to_string (user_permissions mode)
           = Inr (permissions ! nat (user_permissions mode))
       \<and> permission_mask_to_string (group_permissions mode)
           = Inr (permissions ! nat (group_permissions mode))
       \<and> permission_mask_to_string (other_permissions mode)
           = Inr (permissions ! nat (other_permissions mode))"
proof -
  have u: "0 \<le> user_permissions mode \<and> user_permissions mode \<le> 7"
    unfolding user_permissions_bits by (rule take_bit_3_range)
  have g: "0 \<le> group_permissions mode \<and> group_permissions mode \<le> 7"
    unfolding group_permissions_bits by (rule take_bit_3_range)
  have o: "0 \<le> other_permissions mode \<and> other_permissions mode \<le> 7"
    unfolding other_permissions_bits by (rule take_bit_3_range)
  show ?thesis
    using u g o by (simp add: lookup_in_range)
qed

theorem masked_fields_index_the_table_witness:
  "(0::int) \<le> 33261
   \<and> user_permissions 33261 = 7 \<and> group_permissions 33261 = 5 \<and> other_permissions 33261 = 5
   \<and> permission_mask_to_string (user_permissions 33261) = Inr ''rwx''
   \<and> permission_mask_to_string (group_permissions 33261) = Inr ''r-x''
   \<and> permission_mask_to_string (other_permissions 33261) = Inr ''r-x''"
proof -
  have h: "(0::int) \<le> 33261" by simp
  have u: "user_permissions 33261 = 7" and g: "group_permissions 33261 = 5"
    and o: "other_permissions 33261 = 5"
    by (simp_all add: user_permissions_bits group_permissions_bits other_permissions_bits
        take_bit_eq_mod drop_bit_eq_div)
  from masked_fields_index_the_table [OF h] u g o
  have "permission_mask_to_string (user_permissions 33261) = Inr (permissions ! nat 7)"
    and "permission_mask_to_string (group_permissions 33261) = Inr (permissions ! nat 5)"
    and "permission_mask_to_string (other_permissions 33261) = Inr (permissions ! nat 5)"
    by simp_all
  then show ?thesis
    using h u g o by (simp add: permissions_def)
qed

subsection \<open>The report of one path\<close>

lemma print_accepted:
  assumes "wr out s = None"
  shows "print wr s out = (out @ s @ [newline], None)"
  using assms by (simp add: print_def)

lemma print_rejected:
  assumes "wr out s = Some e"
  shows "print wr s out = (out, Some e)"
  using assms by (simp add: print_def)

lemma then_stmt_last: "then_stmt s (print_lines wr []) out = s out"
  by (simp add: then_stmt_def split: prod.splits option.splits)

lemma print_lines_accepted:
  assumes "\<forall>l \<in> set ls. \<forall>out. wr out l = None"
  shows "print_lines wr ls out = (out @ text_of ls, None)"
  using assms
proof (induction ls arbitrary: out)
  case Nil
  show ?case by (simp add: text_of_def)
next
  case (Cons l ls)
  have "print wr l out = (out @ l @ [newline], None)"
    using Cons.prems by (simp add: print_accepted)
  moreover have "print_lines wr ls (out @ l @ [newline]) = (out @ l @ [newline] @ text_of ls, None)"
    using Cons.IH [of "out @ l @ [newline]"] Cons.prems by simp
  ultimately show ?case
    by (simp add: then_stmt_def text_of_def)
qed

lemma lookup_rwx:
  assumes "0 \<le> m \<and> m \<le> 7"
  shows "permission_mask_to_string m = Inr (rwx_string m)"
  using assms by (simp add: lookup_in_range table_is_rwx)

lemma lookup_user:
  "permission_mask_to_string (user_permissions m) = Inr (rwx_string (user_permissions m))"
  unfolding user_permissions_bits by (rule lookup_rwx [OF take_bit_3_range])

lemma lookup_group:
  "permission_mask_to_string (group_permissions m) = Inr (rwx_string (group_permissions m))"
  unfolding group_permissions_bits by (rule lookup_rwx [OF take_bit_3_range])

lemma lookup_other:
  "permission_mask_to_string (other_permissions m) = Inr (rwx_string (other_permissions m))"
  unfolding other_permissions_bits by (rule lookup_rwx [OF take_bit_3_range])

lemma print_lines_Cons: "print_lines wr (l # ls) = then_stmt (print wr l) (print_lines wr ls)"
  by (rule ext) simp

lemma then_stmt_done: "then_stmt s (print_lines wr []) = s"
  by (rule ext) (rule then_stmt_last)

lemma print_permissions_rwx:
  assumes "permission_mask_to_string m = Inr (rwx_string m)"
  shows "print_permissions wr label m = print wr (label @ rwx_string m)"
  using assms by (simp add: print_permissions_def fun_eq_iff)

lemma try_block_ok:
  assumes "stat path = Inr r"
  shows "try_block wr stat path out =
    print_lines wr
      [''File: '' @ path,
       ''  User permissions:  '' @ rwx_string (user_permissions (st_mode r)),
       ''  Group permissions: '' @ rwx_string (group_permissions (st_mode r)),
       ''  Other permissions: '' @ rwx_string (other_permissions (st_mode r))] out"
  by (simp only: try_block_def Let_def assms sum.case print_lines_Cons then_stmt_done
      print_permissions_rwx [OF lookup_user] print_permissions_rwx [OF lookup_group]
      print_permissions_rwx [OF lookup_other])

lemma try_block_raise:
  assumes "stat path = Inl e"
  shows "try_block wr stat path out = (out, Some e)"
  using assms by (simp add: try_block_def)

lemma try_block_ok_report:
  assumes "stat path = Inr r"
  shows "try_block wr stat path out = print_lines wr (report_lines path (stat path)) out"
  by (simp add: try_block_ok [where r = r] assms report_lines_def user_permissions_bits
      group_permissions_bits other_permissions_bits)

lemma try_except_ok:
  assumes "stat path = Inr r"
    and "\<forall>l \<in> set (report_lines path (stat path)). \<forall>out. wr out l = None"
  shows "try_except wr stat path out = (out @ expected_report path (stat path), None)"
  using assms(2)
  by (simp add: try_except_def try_block_ok_report [where r = r] assms(1) print_lines_accepted
      expected_report_def del: print_lines.simps)

lemma try_except_not_found:
  assumes "stat path = Inl (FileNotFoundError msg)"
  shows "try_except wr stat path out = print wr (''File not found: '' @ path) out"
  using assms by (simp add: try_except_def try_block_raise)

lemma try_except_other:
  assumes "stat path = Inl (Exception descr)"
  shows "try_except wr stat path out
    = print wr (''Error processing file '' @ path @ '': '' @ descr) out"
  using assms by (simp add: try_except_def try_block_raise)

lemma try_except_uncaught:
  assumes "stat path = Inl (BaseException msg)"
  shows "try_except wr stat path out = (out, Some (BaseException msg))"
  using assms by (simp add: try_except_def try_block_raise)

lemma try_except_expected:
  assumes "listed_outcome (stat path)"
    and "\<forall>l \<in> set (report_lines path (stat path)). \<forall>out. wr out l = None"
  shows "try_except wr stat path out = (out @ expected_report path (stat path), None)"
proof (cases "stat path")
  case (Inr r)
  then show ?thesis using assms(2) by (rule try_except_ok)
next
  case (Inl e)
  show ?thesis
  proof (cases e)
    case (FileNotFoundError msg)
    with Inl have s: "stat path = Inl (FileNotFoundError msg)" by simp
    have "wr out (''File not found: '' @ path) = None"
      using assms(2) by (simp add: s report_lines_def)
    then show ?thesis
      by (simp add: try_except_not_found [where msg = msg] s print_accepted expected_report_def
          report_lines_def text_of_def)
  next
    case (Exception descr)
    with Inl have s: "stat path = Inl (Exception descr)" by simp
    have "wr out (''Error processing file '' @ path @ '': '' @ descr) = None"
      using assms(2) by (simp add: s report_lines_def)
    then show ?thesis
      by (simp add: try_except_other [where descr = descr] s print_accepted expected_report_def
          report_lines_def text_of_def)
  next
    case (BaseException msg)
    with Inl assms(1) show ?thesis by (simp add: listed_outcome_def)
  qed
qed


lemma for_loop_expected:
  assumes "\<forall>j<length paths. listed_outcome (stat (k + j) (paths ! j))"
    and "\<forall>j<length paths. \<forall>l \<in> set (report_lines (paths ! j) (stat (k + j) (paths ! j))).
           \<forall>out. wr out l = None"
  shows "for_loop wr stat paths k out =
    (out @ concat (map (\<lambda>j. expected_report (paths ! j) (stat (k + j) (paths ! j)))
                     [0..<length paths]), None)"
  using assms
proof (induction paths arbitrary: k out)
  case Nil
  show ?case by simp
next
  case (Cons p ps)
  have listed: "listed_outcome (stat k p)"
    using Cons.prems(1) by fastforce
  have accepted: "\<forall>l \<in> set (report_lines p (stat k p)). \<forall>out. wr out l = None"
    using Cons.prems(2) by fastforce
  have body: "try_except wr (stat k) p out = (out @ expected_report p (stat k p), None)"
    using listed accepted by (rule try_except_expected)
  have l': "\<forall>j<length ps. listed_outcome (stat (Suc k + j) (ps ! j))"
  proof (intro allI impI)
    fix j assume "j < length ps"
    then have "Suc j < length (p # ps)" by simp
    with Cons.prems(1) have "listed_outcome (stat (k + Suc j) ((p # ps) ! Suc j))" by blast
    then show "listed_outcome (stat (Suc k + j) (ps ! j))" by simp
  qed
  have a': "\<forall>j<length ps. \<forall>l \<in> set (report_lines (ps ! j) (stat (Suc k + j) (ps ! j))).
           \<forall>out. wr out l = None"
  proof (intro allI impI)
    fix j assume "j < length ps"
    then have "Suc j < length (p # ps)" by simp
    with Cons.prems(2)
    have "\<forall>l \<in> set (report_lines ((p # ps) ! Suc j) (stat (k + Suc j) ((p # ps) ! Suc j))).
           \<forall>out. wr out l = None" by blast
    then show "\<forall>l \<in> set (report_lines (ps ! j) (stat (Suc k + j) (ps ! j))).
           \<forall>out. wr out l = None" by simp
  qed
  have rest: "for_loop wr stat ps (Suc k) out' =
    (out' @ concat (map (\<lambda>j. expected_report (ps ! j) (stat (Suc k + j) (ps ! j)))
                     [0..<length ps]), None)" for out'
    using l' a' by (rule Cons.IH)
  show ?case
    by (simp add: body rest map_upt_Suc del: upt_Suc)
qed

lemma try_except_cong:
  assumes "stat1 path = stat2 path"
  shows "try_except wr stat1 path out = try_except wr stat2 path out"
  unfolding try_except_def try_block_def assms ..

lemma for_loop_cong:
  assumes "\<forall>j<length paths. stat1 (k + j) (paths ! j) = stat2 (k + j) (paths ! j)"
  shows "for_loop wr stat1 paths k out = for_loop wr stat2 paths k out"
  using assms
proof (induction paths arbitrary: k out)
  case Nil
  show ?case by simp
next
  case (Cons p ps)
  have "stat1 k p = stat2 k p"
    using Cons.prems by fastforce
  then have body: "try_except wr (stat1 k) p out = try_except wr (stat2 k) p out"
    by (rule try_except_cong)
  have "\<forall>j<length ps. stat1 (Suc k + j) (ps ! j) = stat2 (Suc k + j) (ps ! j)"
  proof (intro allI impI)
    fix j assume "j < length ps"
    then have "Suc j < length (p # ps)" by simp
    with Cons.prems
    have "stat1 (k + Suc j) ((p # ps) ! Suc j) = stat2 (k + Suc j) ((p # ps) ! Suc j)"
      by blast
    then show "stat1 (Suc k + j) (ps ! j) = stat2 (Suc k + j) (ps ! j)" by simp
  qed
  then have rest: "for_loop wr stat1 ps (Suc k) out' = for_loop wr stat2 ps (Suc k) out'" for out'
    by (rule Cons.IH)
  show ?case
    by (simp only: for_loop.simps body rest)
qed

lemma low9_user: "user_permissions (m AND 511) = user_permissions m"
  by (simp add: user_permissions_def and.assoc)

lemma low9_group: "group_permissions (m AND 511) = group_permissions m"
  by (simp add: group_permissions_def and.assoc)

lemma low9_other: "other_permissions (m AND 511) = other_permissions m"
  by (simp add: other_permissions_def and.assoc)

lemma rwx_user: "rwx_string (user_permissions m) =
  [if bit m 8 then CHR ''r'' else CHR ''-'',
   if bit m 7 then CHR ''w'' else CHR ''-'',
   if bit m 6 then CHR ''x'' else CHR ''-'']"
  by (simp add: rwx_string_def user_permissions_bits bit_simps)

lemma rwx_group: "rwx_string (group_permissions m) =
  [if bit m 5 then CHR ''r'' else CHR ''-'',
   if bit m 4 then CHR ''w'' else CHR ''-'',
   if bit m 3 then CHR ''x'' else CHR ''-'']"
  by (simp add: rwx_string_def group_permissions_bits bit_simps)

lemma rwx_other: "rwx_string (other_permissions m) =
  [if bit m 2 then CHR ''r'' else CHR ''-'',
   if bit m 1 then CHR ''w'' else CHR ''-'',
   if bit m 0 then CHR ''x'' else CHR ''-'']"
  by (simp add: rwx_string_def other_permissions_bits bit_simps)

lemma uncaught_ends_loop:
  assumes "stat k path = Inl (BaseException msg)"
  shows "for_loop wr stat (path # rest) k out = (out, Some (BaseException msg))"
  using assms by (simp add: try_except_uncaught)

lemma handler_print_ends_loop:
  assumes "stat k path = Inl (FileNotFoundError msg)"
    and "wr out (''File not found: '' @ path) = Some e"
  shows "for_loop wr stat (path # rest) k out = (out, Some e)"
  using assms by (simp add: try_except_not_found [where msg = msg] print_rejected)

text \<open>
  Claim C5. For a file whose mode has owner bits \<open>0b111\<close> (bits 8, 7, 6), group bits
  \<open>0b101\<close> (bits 5, 4, 3) and other bits \<open>0b100\<close> (bits 2, 1, 0), the block prints,
  in this order, the header line and the lines with \<open>rwx\<close> for the user, \<open>r-x\<close> for the
  group and \<open>r--\<close> for the others, whatever the stream; on a stream that accepts every
  text the statement writes exactly these four lines and no exception leaves it.
\<close>

theorem report_of_mode_754:
  assumes "stat path = Inr r"
    and "bit (st_mode r) 8 \<and> bit (st_mode r) 7 \<and> bit (st_mode r) 6"
    and "bit (st_mode r) 5 \<and> \<not> bit (st_mode r) 4 \<and> bit (st_mode r) 3"
    and "bit (st_mode r) 2 \<and> \<not> bit (st_mode r) 1 \<and> \<not> bit (st_mode r) 0"
  shows "try_block wr stat path out =
      print_lines wr
        [''File: '' @ path,
         ''  User permissions:  rwx'',
         ''  Group permissions: r-x'',
         ''  Other permissions: r--''] out
    \<and> try_except reliable_stdout stat path out =
      (out @ ''File: '' @ path @ [newline]
           @ ''  User permissions:  rwx'' @ [newline]
           @ ''  Group permissions: r-x'' @ [newline]
           @ ''  Other permissions: r--'' @ [newline], None)"
proof -
  have block: "try_block wr stat path out =
      print_lines wr
        [''File: '' @ path,
         ''  User permissions:  rwx'',
         ''  Group permissions: r-x'',
         ''  Other permissions: r--''] out" for wr
    using assms(2-4)
    by (simp add: try_block_ok [where r = r] assms(1) rwx_user rwx_group rwx_other
        del: print_lines.simps)
  have "print_lines reliable_stdout
        [''File: '' @ path,
         ''  User permissions:  rwx'',
         ''  Group permissions: r-x'',
         ''  Other permissions: r--''] out
     = (out @ text_of [''File: '' @ path,
         ''  User permissions:  rwx'',
         ''  Group permissions: r-x'',
         ''  Other permissions: r--''], None)"
    by (rule print_lines_accepted) (simp add: reliable_stdout_def)
  then have "try_except reliable_stdout stat path out =
      (out @ ''File: '' @ path @ [newline]
           @ ''  User permissions:  rwx'' @ [newline]
           @ ''  Group permissions: r-x'' @ [newline]
           @ ''  Other permissions: r--'' @ [newline], None)"
    by (simp add: try_except_def block text_of_def del: print_lines.simps)
  with block show ?thesis by blast
qed

theorem report_of_mode_754_witness:
  "example_stat ''a'' = Inr \<lparr>st_mode = 33260\<rparr>
   \<and> (bit (33260::int) 8 \<and> bit (33260::int) 7 \<and> bit (33260::int) 6)
   \<and> (bit (33260::int) 5 \<and> \<not> bit (33260::int) 4 \<and> bit (33260::int) 3)
   \<and> (bit (33260::int) 2 \<and> \<not> bit (33260::int) 1 \<and> \<not> bit (33260::int) 0)
   \<and> try_except reliable_stdout example_stat ''a'' [] =
       (''File: a'' @ [newline] @ ''  User permissions:  rwx'' @ [newline]
        @ ''  Group permissions: r-x'' @ [newline] @ ''  Other permissions: r--'' @ [newline], None)
   \<and> try_block ascii_stdout example_stat ''a'' [] =
       (''File: a'' @ [newline] @ ''  User permissions:  rwx'' @ [newline]
        @ ''  Group permissions: r-x'' @ [newline] @ ''  Other permissions: r--'' @ [newline], None)"
proof -
  have h: "example_stat ''a'' = Inr \<lparr>st_mode = 33260\<rparr>"
    by (simp add: example_stat_def)
  have b: "bit (st_mode \<lparr>st_mode = 33260\<rparr>) 8 \<and> bit (st_mode \<lparr>st_mode = 33260\<rparr>) 7
      \<and> bit (st_mode \<lparr>st_mode = 33260\<rparr>) 6"
    "bit (st_mode \<lparr>st_mode = 33260\<rparr>) 5 \<and> \<not> bit (st_mode \<lparr>st_mode = 33260\<rparr>) 4
      \<and> bit (st_mode \<lparr>st_mode = 33260\<rparr>) 3"
    "bit (st_mode \<lparr>st_mode = 33260\<rparr>) 2 \<and> \<not> bit (st_mode \<lparr>st_mode = 33260\<rparr>) 1
      \<and> \<not> bit (st_mode \<lparr>st_mode = 33260\<rparr>) 0"
    by simp_all
  note t = report_of_mode_754 [where stat = example_stat and path = "''a''" and out = "[]"
      and r = "\<lparr>st_mode = 33260\<rparr>", OF h b]
  have "try_block ascii_stdout example_stat ''a'' [] =
       (''File: a'' @ [newline] @ ''  User permissions:  rwx'' @ [newline]
        @ ''  Group permissions: r-x'' @ [newline] @ ''  Other permissions: r--'' @ [newline], None)"
    using t [where wr = ascii_stdout]
    by (simp add: then_stmt_def print_def ascii_stdout_def)
  with t [where wr = ascii_stdout] h b show ?thesis by simp
qed

text \<open>
  Claim C6 says that a path whose query signals not-found always gets its one line,
  that no failure is left unhandled and that the loop goes on. It fails when the
  \<^verbatim>\<open>print\<close> of the handler raises: on an ASCII stream the line of a path with a
  character beyond ASCII is not written, the UnicodeEncodeError leaves the handler, and
  the next path is never looked at.
\<close>

theorem not_found_handler_print_counterexample:
  "unchanged nothing_there 0 cafe = Inl (FileNotFoundError ''[Errno 2] No such file or directory'')
   \<and> run ascii_stdout (unchanged nothing_there) [cafe, ''b'']
       = ([], Some (Exception ''ordinal not in range(128)''))"
  by (simp add: run_def unchanged_def nothing_there_def cafe_def try_except_def try_block_def
      print_def ascii_stdout_def)

text \<open>
  Claim C6, as amended. For a path whose metadata query raises FileNotFoundError, if
  standard output accepts the line \<open>File not found: <path>\<close>, then the statement writes
  exactly this line, no exception leaves it, and the loop goes on with the rest of the
  paths.
\<close>

theorem not_found_one_line:
  assumes "stat k path = Inl (FileNotFoundError msg)"
    and "wr out (''File not found: '' @ path) = None"
  shows "try_except wr (stat k) path out = (out @ ''File not found: '' @ path @ [newline], None)
       \<and> for_loop wr stat (path # rest) k out
           = for_loop wr stat rest (Suc k) (out @ ''File not found: '' @ path @ [newline])"
  using assms by (simp add: try_except_not_found [where msg = msg] print_accepted)

theorem not_found_one_line_witness:
  "unchanged example_stat 0 ''b'' = Inl (FileNotFoundError ''[Errno 2] No such file or directory'')
   \<and> ascii_stdout ''x'' (''File not found: '' @ ''b'') = None
   \<and> try_except ascii_stdout (unchanged example_stat 0) ''b'' ''x''
       = (''x'' @ ''File not found: b'' @ [newline], None)
   \<and> for_loop ascii_stdout (unchanged example_stat) [''b'', ''b''] 0 []
       = (''File not found: b'' @ [newline] @ ''File not found: b'' @ [newline], None)"
proof -
  have h: "unchanged example_stat k ''b''
      = Inl (FileNotFoundError ''[Errno 2] No such file or directory'')" for k
    by (simp add: unchanged_def example_stat_def)
  have a: "ascii_stdout out (''File not found: '' @ ''b'') = None" for out
    by (simp add: ascii_stdout_def)
  note step = not_found_one_line [where stat = "unchanged example_stat" and path = "''b''"
      and wr = ascii_stdout, OF h a]
  have "try_except ascii_stdout (unchanged example_stat 0) ''b'' ''x''
       = (''x'' @ ''File not found: b'' @ [newline], None)"
    using step [where k = 0 and out = "''x''" and rest = "[]"] by simp
  moreover have "for_loop ascii_stdout (unchanged example_stat) [''b'', ''b''] 0 []
       = (''File not found: b'' @ [newline] @ ''File not found: b'' @ [newline], None)"
    using step [where k = 0 and out = "[]" and rest = "[''b'']"]
      step [where k = "Suc 0" and out = "''File not found: b'' @ [newline]" and rest = "[]"]
    by simp
  ultimately show ?thesis using h [of 0] a [of "''x''"] by blast
qed

text \<open>
  Claim C7 says that a path whose query fails with another error always gets its one
  line and that the loop goes on. It fails when the \<^verbatim>\<open>print\<close> of the handler raises:
  on an ASCII stream the line of a path with a character beyond ASCII is not written,
  the UnicodeEncodeError leaves the handler, and the next path is never looked at.
\<close>

theorem other_error_handler_print_counterexample:
  "unchanged example_stat 0 cafe = Inl (Exception ''[Errno 13] Permission denied'')
   \<and> run ascii_stdout (unchanged example_stat) [cafe, ''b'']
       = ([], Some (Exception ''ordinal not in range(128)''))"
  by (simp add: run_def unchanged_def example_stat_def cafe_def try_except_def try_block_def
      print_def ascii_stdout_def)

text \<open>
  Claim C7, as amended. For a path whose metadata query fails with any other error, an
  instance of \<^verbatim>\<open>Exception\<close>, if standard output accepts the line
  \<open>Error processing file <path>: <description>\<close>, then the statement writes exactly this
  line, with the path and the description of the failure, no exception leaves it, and
  the loop goes on with the rest of the paths.
\<close>

theorem other_error_one_line:
  assumes "stat k path = Inl (Exception descr)"
    and "wr out (''Error processing file '' @ path @ '': '' @ descr) = None"
  shows "try_except wr (stat k) path out
           = (out @ ''Error processing file '' @ path @ '': '' @ descr @ [newline], None)
       \<and> for_loop wr stat (path # rest) k out
           = for_loop wr stat rest (Suc k)
               (out @ ''Error processing file '' @ path @ '': '' @ descr @ [newline])"
  using assms by (simp add: try_except_other [where descr = descr] print_accepted)

theorem other_error_one_line_witness:
  "unchanged example_stat 0 ''c'' = Inl (Exception ''[Errno 13] Permission denied'')
   \<and> ascii_stdout ''x'' (''Error processing file '' @ ''c'' @ '': '' @ ''[Errno 13] Permission denied'')
       = None
   \<and> try_except ascii_stdout (unchanged example_stat 0) ''c'' ''x''
       = (''x'' @ ''Error processing file c: [Errno 13] Permission denied'' @ [newline], None)
   \<and> for_loop ascii_stdout (unchanged example_stat) [''c'', ''c''] 0 []
       = (''Error processing file c: [Errno 13] Permission denied'' @ [newline]
          @ ''Error processing file c: [Errno 13] Permission denied'' @ [newline], None)"
proof -
  have h: "unchanged example_stat k ''c'' = Inl (Exception ''[Errno 13] Permission denied'')" for k
    by (simp add: unchanged_def example_stat_def)
  have a: "ascii_stdout out
      (''Error processing file '' @ ''c'' @ '': '' @ ''[Errno 13] Permission denied'') = None" for out
    by (simp add: ascii_stdout_def)
  note step = other_error_one_line [where stat = "unchanged example_stat" and path = "''c''"
      and wr = ascii_stdout, OF h a]
  have "try_except ascii_stdout (unchanged example_stat 0) ''c'' ''x''
       = (''x'' @ ''Error processing file c: [Errno 13] Permission denied'' @ [newline], None)"
    using step [where k = 0 and out = "''x''" and rest = "[]"] by simp
  moreover have "for_loop ascii_stdout (unchanged example_stat) [''c'', ''c''] 0 []
       = (''Error processing file c: [Errno 13] Permission denied'' @ [newline]
          @ ''Error processing file c: [Errno 13] Permission denied'' @ [newline], None)"
    using step [where k = 0 and out = "[]" and rest = "[''c'']"]
      step [where k = "Suc 0"
          and out = "''Error processing file c: [Errno 13] Permission denied'' @ [newline]"
          and rest = "[]"]
    by simp
  ultimately show ?thesis using h [of 0] a [of "''x''"] by blast
qed

subsection \<open>The whole run\<close>




lemma main_reports:
  assumes "\<forall>k<length file_path. listed_outcome (stat k (file_path ! k))"
    and "\<forall>k<length file_path. \<forall>l \<in> set (report_lines (file_path ! k) (stat k (file_path ! k))).
           \<forall>out. wr out l = None"
  shows "main wr stat = (concat (expected_reports stat file_path), None)"
proof -
  have "for_loop wr stat file_path 0 [] =
    ([] @ concat (map (\<lambda>j. expected_report (file_path ! j) (stat (0 + j) (file_path ! j)))
                     [0..<length file_path]), None)"
    by (rule for_loop_expected) (simp_all add: assms)
  then show ?thesis
    by (simp add: main_def run_def expected_reports_def)
qed

lemma length_file_path: "length file_path = 3"
  by (simp add: file_path_def)

text \<open>
  Claim C9. Two runs over the same list of paths, on the same stream, in which the
  metadata query of every iteration gives the same result in both runs write the same
  characters and end the same way.
\<close>

theorem run_deterministic:
  assumes "\<forall>k<length paths. stat1 k (paths ! k) = stat2 k (paths ! k)"
  shows "run wr stat1 paths = run wr stat2 paths"
  unfolding run_def by (rule for_loop_cong) (simp add: assms)

theorem run_deterministic_witness:
  "unchanged example_stat 0 ''b'' = b_created 0 ''b''
   \<and> unchanged example_stat 1 ''a'' = b_created 1 ''a''
   \<and> unchanged example_stat 1 ''b'' \<noteq> b_created 1 ''b''
   \<and> run ascii_stdout (unchanged example_stat) [''b'', ''a'']
       = run ascii_stdout b_created [''b'', ''a'']"
proof -
  have e: "unchanged example_stat 0 ''b'' = b_created 0 ''b''"
    "unchanged example_stat 1 ''a'' = b_created 1 ''a''"
    by (simp_all add: unchanged_def b_created_def)
  have d: "unchanged example_stat 1 ''b'' \<noteq> b_created 1 ''b''"
    by (simp add: unchanged_def b_created_def example_stat_def)
  have "k = 0 \<or> k = 1" if "k < length [''b'', ''a'']" for k
    using that by auto
  with e have h: "\<forall>k<length [''b'', ''a''].
      unchanged example_stat k ([''b'', ''a''] ! k) = b_created k ([''b'', ''a''] ! k)"
    by fastforce
  from run_deterministic [where paths = "[''b'', ''a'']" and ?stat1.0 = "unchanged example_stat"
      and ?stat2.0 = b_created and wr = ascii_stdout, OF h] e d
  show ?thesis by blast
qed

lemma unchanged_runs_agree:
  assumes "\<forall>p \<in> set paths. stat1 p = stat2 p"
  shows "run wr (unchanged stat1) paths = run wr (unchanged stat2) paths"
  unfolding run_def by (rule for_loop_cong) (simp add: assms unchanged_def)

text \<open>
  Claim C10. A successful report depends only on the low nine bits of the file mode:
  for two modes that agree on \<^verbatim>\<open>mode & 0o777\<close> the statement writes the same lines
  for the same path and ends the same way.
\<close>

theorem report_low_nine_bits:
  assumes "stat1 path = Inr r1" and "stat2 path = Inr r2"
    and "st_mode r1 AND 511 = st_mode r2 AND 511"
  shows "try_except wr stat1 path out = try_except wr stat2 path out"
proof -
  have "user_permissions (st_mode r1) = user_permissions (st_mode r2)"
    using low9_user [of "st_mode r1"] low9_user [of "st_mode r2"] assms(3) by simp
  moreover have "group_permissions (st_mode r1) = group_permissions (st_mode r2)"
    using low9_group [of "st_mode r1"] low9_group [of "st_mode r2"] assms(3) by simp
  moreover have "other_permissions (st_mode r1) = other_permissions (st_mode r2)"
    using low9_other [of "st_mode r1"] low9_other [of "st_mode r2"] assms(3) by simp
  ultimately have "try_block wr stat1 path out = try_block wr stat2 path out"
    by (simp only: try_block_ok [where stat = stat1 and path = path and r = r1, OF assms(1)]
        try_block_ok [where stat = stat2 and path = path and r = r2, OF assms(2)])
  then show ?thesis
    by (simp only: try_except_def)
qed

theorem report_low_nine_bits_witness:
  "example_stat ''a'' = Inr \<lparr>st_mode = 33260\<rparr>
   \<and> (example_stat(''a'' := Inr \<lparr>st_mode = 2540\<rparr>)) ''a'' = Inr \<lparr>st_mode = 2540\<rparr>
   \<and> (33260::int) AND 511 = 2540 AND 511
   \<and> (33260::int) \<noteq> 2540
   \<and> try_except ascii_stdout example_stat ''a'' []
       = try_except ascii_stdout (example_stat(''a'' := Inr \<lparr>st_mode = 2540\<rparr>)) ''a'' []"
proof -
  have h1: "example_stat ''a'' = Inr \<lparr>st_mode = 33260\<rparr>"
    by (simp add: example_stat_def)
  have h2: "(example_stat(''a'' := Inr \<lparr>st_mode = 2540\<rparr>)) ''a'' = Inr \<lparr>st_mode = 2540\<rparr>"
    by simp
  have h3: "st_mode \<lparr>st_mode = 33260\<rparr> AND 511 = st_mode \<lparr>st_mode = 2540\<rparr> AND 511"
    by simp
  from report_low_nine_bits [where ?stat1.0 = example_stat and path = "''a''"
      and ?stat2.0 = "example_stat(''a'' := Inr \<lparr>st_mode = 2540\<rparr>)" and out = "[]"
      and wr = ascii_stdout, OF h1 h2 h3] h1 h2
  show ?thesis by simp
qed

end
